theory Spec2Isabelle
  imports Main
begin

section \<open>Values, objects and the heap\<close>

text \<open>
  The repository consists of three scripts (prototype, singleton, proxy).  They
  are embedded over a small model of the host language's objects: every object
  has a table of own data properties, an optional prototype and a frozen flag,
  and lives in a heap addressed by references.

  Property values are the primitives and the functions that occur in the
  scripts.  A function value names a function body of the repository.  Numbers
  are the integer-valued numbers; strings are compared and measured as lists of
  characters.
\<close>

type_synonym ref = nat

datatype fn =
    Dog_constructor | Dog_bark
  | Dog1_constructor | Dog1_bark
  | play_arrow
  | SuperDog_constructor | SuperDog_fly
  | dog_bark
  | Counter_constructor | Counter_getCounte | Counter_increment | Counter_decrement
  | decrement_arrow
  | newCounter_increment | newCounter_descrement

datatype jsval = Undefined | Null | Bool bool | Num int | Str string | Fn fn

datatype error =
    NotAFunction           \<comment> \<open>TypeError: x.m is not a function\<close>
  | ClassWithoutNew        \<comment> \<open>TypeError: class constructor called without new\<close>
  | ReadOnly               \<comment> \<open>TypeError: failed assignment in strict code\<close>
  | OneInstance            \<comment> \<open>Error('You can only create one instance!')\<close>
  | LengthOfNullish        \<comment> \<open>TypeError: cannot read properties of undefined/null\<close>
  | ProxyInvariant         \<comment> \<open>TypeError: trap result differs from a frozen target's value\<close>

record obj =
  props :: "string \<rightharpoonup> jsval"
  proto :: "ref option"
  frozen :: bool

type_synonym heap = "ref \<rightharpoonup> obj"

text \<open>A console line keeps the pieces of a template literal apart: literal
  text, and the values spliced into it.\<close>

datatype part = Text string | Val jsval | Object ref

record state =
  heap :: heap
  next_ref :: ref
  console :: "part list list"
  instance_var :: "ref option"   \<comment> \<open>\<^verbatim>\<open>let instance;\<close> (undefined, or the object)\<close>
  counter :: int                 \<comment> \<open>\<^verbatim>\<open>let counter = 0;\<close>\<close>
  count_var :: int               \<comment> \<open>\<^verbatim>\<open>let count = 0;\<close>\<close>

subsection \<open>Truthiness and \<^verbatim>\<open>typeof\<close>\<close>

fun truthy :: "jsval \<Rightarrow> bool" where
  "truthy Undefined = False"
| "truthy Null = False"
| "truthy (Bool b) = b"
| "truthy (Num n) = (n \<noteq> 0)"
| "truthy (Str s) = (s \<noteq> [])"
| "truthy (Fn f) = True"

fun is_fn :: "jsval \<Rightarrow> bool" where
  "is_fn (Fn f) = True"
| "is_fn v = False"

fun is_number :: "jsval \<Rightarrow> bool" where
  "is_number (Num n) = True"
| "is_number v = False"

subsection \<open>The delegation chain\<close>

text \<open>
  \<open>chain h r\<close> is the sequence of objects consulted when a member is looked up
  on \<open>r\<close>: the object itself, its prototype, the prototype's prototype, and so
  on.  The runtime keeps prototype links acyclic; in this heap every object is
  allocated after its prototype (the scripts never re-link a prototype), so the
  walk only ever moves to an older reference, and stops otherwise.
\<close>

function chain :: "heap \<Rightarrow> ref \<Rightarrow> ref list" where
  "chain h r =
     (case h r of
        None \<Rightarrow> []
      | Some ob \<Rightarrow>
          r # (case proto ob of
                 None \<Rightarrow> []
               | Some p \<Rightarrow> if p < r then chain h p else []))"
  by pat_completeness auto
termination
  by (relation "measure snd") auto

declare chain.simps [simp del]

definition own :: "heap \<Rightarrow> ref \<Rightarrow> string \<Rightarrow> jsval option" where
  "own h r k = (case h r of None \<Rightarrow> None | Some ob \<Rightarrow> props ob k)"

definition is_frozen :: "heap \<Rightarrow> ref \<Rightarrow> bool" where
  "is_frozen h r = (case h r of None \<Rightarrow> False | Some ob \<Rightarrow> frozen ob)"

definition proto_of :: "heap \<Rightarrow> ref \<Rightarrow> ref option" where
  "proto_of h r = (case h r of None \<Rightarrow> None | Some ob \<Rightarrow> proto ob)"

text \<open>The first object of a chain that has the key among its own properties,
  with the value it holds.\<close>

fun lookup_in :: "heap \<Rightarrow> ref list \<Rightarrow> string \<Rightarrow> (ref \<times> jsval) option" where
  "lookup_in h [] k = None"
| "lookup_in h (r # rs) k =
     (case own h r k of Some v \<Rightarrow> Some (r, v) | None \<Rightarrow> lookup_in h rs k)"

text \<open>\<^verbatim>\<open>o[k]\<close>: a missing member reads as undefined, without error.\<close>

definition js_get :: "heap \<Rightarrow> ref \<Rightarrow> string \<Rightarrow> jsval" where
  "js_get h r k =
     (case lookup_in h (chain h r) k of None \<Rightarrow> Undefined | Some (_, v) \<Rightarrow> v)"

text \<open>
  \<^verbatim>\<open>o[k] = v\<close> on an ordinary object with data properties.  The assignment is
  refused when the first holder of \<open>k\<close> on the chain is frozen (its properties
  are read-only), or when the receiver itself is frozen (it takes no new
  property and changes none).  Otherwise the value is stored on the receiver.
  The flag tells whether the assignment took place.
\<close>

definition js_set :: "ref \<Rightarrow> string \<Rightarrow> jsval \<Rightarrow> heap \<Rightarrow> bool \<times> heap" where
  "js_set r k v h =
     (case h r of
        None \<Rightarrow> (False, h)
      | Some ob \<Rightarrow>
          (let writable = (case lookup_in h (chain h r) k of
                             None \<Rightarrow> True
                           | Some (holder, _) \<Rightarrow> \<not> is_frozen h holder)
           in if writable \<and> \<not> frozen ob
              then (True, h(r \<mapsto> ob\<lparr>props := (props ob)(k \<mapsto> v)\<rparr>))
              else (False, h)))"

text \<open>
  The keys of the tables are names of data properties, and \<open>js_get\<close> and
  \<open>js_set\<close> are the reads and writes of data properties.  One name is not
  such a key: \<^verbatim>\<open>__proto__\<close> names the accessor that every object inherits from
  the root object.  Reading \<^verbatim>\<open>o.__proto__\<close> yields the prototype link of \<open>o\<close>
  (\<open>proto_of\<close>), and assigning to it re-links \<open>o\<close> and stores no value.
  What is said below about a member added to a table under a name is said for
  data keys.  \<open>proto_part\<close> is what printing \<^verbatim>\<open>o.__proto__\<close> shows: the prototype,
  or null.
\<close>

definition data_key :: "string \<Rightarrow> bool" where
  "data_key k = (k \<noteq> ''__proto__'')"

definition proto_part :: "heap \<Rightarrow> ref \<Rightarrow> part" where
  "proto_part h r = (case proto_of h r of None \<Rightarrow> Val Null | Some p \<Rightarrow> Object p)"

text \<open>\<^verbatim>\<open>Object.freeze(o)\<close>.\<close>

definition freeze :: "ref \<Rightarrow> state \<Rightarrow> state" where
  "freeze r s =
     (case heap s r of
        None \<Rightarrow> s
      | Some ob \<Rightarrow> s\<lparr>heap := (heap s)(r \<mapsto> ob\<lparr>frozen := True\<rparr>)\<rparr>)"

text \<open>An assignment statement in sloppy code (the top level of the scripts and
  their arrow functions): a refused assignment is silently dropped.\<close>

definition assign_sloppy :: "ref \<Rightarrow> string \<Rightarrow> jsval \<Rightarrow> state \<Rightarrow> state" where
  "assign_sloppy r k v s = s\<lparr>heap := snd (js_set r k v (heap s))\<rparr>"

text \<open>An assignment in strict code (class bodies): a refused assignment
  throws.\<close>

definition assign_strict :: "ref \<Rightarrow> string \<Rightarrow> jsval \<Rightarrow> state \<Rightarrow> (error + unit) \<times> state" where
  "assign_strict r k v s =
     (case js_set r k v (heap s) of
        (True, h') \<Rightarrow> (Inr (), s\<lparr>heap := h'\<rparr>)
      | (False, _) \<Rightarrow> (Inl ReadOnly, s))"

definition alloc :: "obj \<Rightarrow> state \<Rightarrow> ref \<times> state" where
  "alloc ob s =
     (next_ref s, s\<lparr>heap := (heap s)(next_ref s \<mapsto> ob), next_ref := next_ref s + 1\<rparr>)"

text \<open>\<^verbatim>\<open>console.log(...)\<close> appends one line to the output.\<close>

definition console_log :: "part list \<Rightarrow> state \<Rightarrow> state" where
  "console_log line s = s\<lparr>console := console s @ [line]\<rparr>"

text \<open>Sequencing of steps that may throw.\<close>

definition bind ::
  "(state \<Rightarrow> (error + 'a) \<times> state) \<Rightarrow> ('a \<Rightarrow> state \<Rightarrow> (error + 'b) \<times> state) \<Rightarrow>
   state \<Rightarrow> (error + 'b) \<times> state" where
  "bind m f s = (case m s of (Inl e, s') \<Rightarrow> (Inl e, s') | (Inr x, s') \<Rightarrow> f x s')"

definition ok :: "(state \<Rightarrow> 'a \<times> state) \<Rightarrow> state \<Rightarrow> (error + 'a) \<times> state" where
  "ok m s = (case m s of (x, s') \<Rightarrow> (Inr x, s'))"

definition stmt :: "(state \<Rightarrow> state) \<Rightarrow> state \<Rightarrow> (error + unit) \<times> state" where
  "stmt m s = (Inr (), m s)"

text \<open>The root object \<^verbatim>\<open>Object.prototype\<close> exists before any script runs.  Its
  built-in members are runtime code outside the repository and are left out of
  its table.\<close>

definition Object_prototype :: ref where
  "Object_prototype = 0"

definition init_state :: state where
  "init_state =
     \<lparr>heap = [Object_prototype \<mapsto> \<lparr>props = Map.empty, proto = None, frozen = False\<rparr>],
      next_ref = 1, console = [], instance_var = None, counter = 0, count_var = 0\<rparr>"

subsection \<open>Numbers that count\<close>

text \<open>
  \<^verbatim>\<open>counter\<close> and \<^verbatim>\<open>count\<close> are numbers of the host language: 64-bit binary
  floating-point values.  Both start at 0 and change only by \<^verbatim>\<open>++\<close> and \<^verbatim>\<open>--\<close>,
  so they hold integers of magnitude at most \<open>2 ^ 53\<close>.  On these, adding or
  subtracting 1 is exact, except at the end of the range: \<open>2 ^ 53 + 1\<close> has no
  representation and rounds (ties to even) back to \<open>2 ^ 53\<close>, and likewise
  \<open>- 2 ^ 53 - 1\<close> rounds to \<open>- 2 ^ 53\<close>.
\<close>

definition max_exact :: int where
  "max_exact = 2 ^ 53"

definition js_incr :: "int \<Rightarrow> int" where
  "js_incr c = (if c = max_exact then c else c + 1)"

definition js_decr :: "int \<Rightarrow> int" where
  "js_decr c = (if c = - max_exact then c else c - 1)"

section \<open>Function bodies and method calls\<close>

text \<open>
  \<open>call_fn f this s\<close> runs the body of \<open>f\<close> as a method call without
  arguments on the receiver \<open>this\<close>.  A class constructor called without
  \<^verbatim>\<open>new\<close> throws.
\<close>

fun call_fn :: "fn \<Rightarrow> ref \<Rightarrow> state \<Rightarrow> (error + jsval) \<times> state" where
  "call_fn Dog_constructor this s = (Inl ClassWithoutNew, s)"
| "call_fn Dog_bark this s = (Inr (Str ''Woof!''), s)"
| "call_fn Dog1_constructor this s = (Inl ClassWithoutNew, s)"
| "call_fn Dog1_bark this s = (Inr (Str ''Woof!''), s)"
| "call_fn play_arrow this s = (Inr Undefined, console_log [Text ''Playing now!''] s)"
| "call_fn SuperDog_constructor this s = (Inl ClassWithoutNew, s)"
| "call_fn SuperDog_fly this s = (Inr Undefined, console_log [Text ''Flying!''] s)"
| "call_fn dog_bark this s = (Inr Undefined, console_log [Text ''Woof!''] s)"
| "call_fn Counter_constructor this s = (Inl ClassWithoutNew, s)"
| "call_fn Counter_getCounte this s = (Inr (Num (counter s)), s)"
| "call_fn Counter_increment this s =
     (let c = js_incr (counter s) in (Inr (Num c), s\<lparr>counter := c\<rparr>))"
| "call_fn Counter_decrement this s =
     (let c = js_decr (counter s) in (Inr (Num c), s\<lparr>counter := c\<rparr>))"
| "call_fn decrement_arrow this s =
     (Inr Undefined, console_log [Text ''decrement function called''] s)"
| "call_fn newCounter_increment this s =
     (let c = js_incr (count_var s) in (Inr (Num c), s\<lparr>count_var := c\<rparr>))"
| "call_fn newCounter_descrement this s =
     (let c = js_decr (count_var s) in (Inr (Num c), s\<lparr>count_var := c\<rparr>))"

text \<open>\<^verbatim>\<open>r.k()\<close>: the member is looked up on the chain of \<open>r\<close>; calling anything
  but a function throws.\<close>

definition invoke :: "ref \<Rightarrow> string \<Rightarrow> state \<Rightarrow> (error + jsval) \<times> state" where
  "invoke r k s =
     (case js_get (heap s) r k of
        Fn f \<Rightarrow> call_fn f r s
      | _ \<Rightarrow> (Inl NotAFunction, s))"

section \<open>The prototype script\<close>

text \<open>A class declaration allocates the class's prototype object, holding the
  constructor and the methods, linked to the parent's prototype.\<close>

definition class_Dog :: "state \<Rightarrow> ref \<times> state" where
  "class_Dog =
     alloc \<lparr>props = [''constructor'' \<mapsto> Fn Dog_constructor, ''bark'' \<mapsto> Fn Dog_bark],
            proto = Some Object_prototype, frozen = False\<rparr>"

definition class_Dog1 :: "state \<Rightarrow> ref \<times> state" where
  "class_Dog1 =
     alloc \<lparr>props = [''constructor'' \<mapsto> Fn Dog1_constructor, ''bark'' \<mapsto> Fn Dog1_bark],
            proto = Some Object_prototype, frozen = False\<rparr>"

definition class_SuperDog :: "ref \<Rightarrow> state \<Rightarrow> ref \<times> state" where
  "class_SuperDog dogP =
     alloc \<lparr>props = [''constructor'' \<mapsto> Fn SuperDog_constructor, ''fly'' \<mapsto> Fn SuperDog_fly],
            proto = Some dogP, frozen = False\<rparr>"

text \<open>The body of Dog's constructor: \<^verbatim>\<open>this.name = name\<close>, in strict code.\<close>

definition Dog_init :: "ref \<Rightarrow> jsval \<Rightarrow> state \<Rightarrow> (error + unit) \<times> state" where
  "Dog_init this name s = assign_strict this ''name'' name s"

text \<open>\<^verbatim>\<open>new C(name)\<close> creates an empty object linked to \<^verbatim>\<open>C.prototype\<close> and runs
  the constructor on it.  \<open>new_Dog\<close> takes the reference of \<^verbatim>\<open>Dog.prototype\<close>;
  SuperDog's constructor only calls \<^verbatim>\<open>super(name)\<close>.\<close>

definition new_Dog :: "ref \<Rightarrow> jsval \<Rightarrow> state \<Rightarrow> (error + ref) \<times> state" where
  "new_Dog dogP name =
     bind (ok (alloc \<lparr>props = Map.empty, proto = Some dogP, frozen = False\<rparr>)) (\<lambda>this.
     bind (Dog_init this name) (\<lambda>_ s. (Inr this, s)))"

definition new_SuperDog :: "ref \<Rightarrow> jsval \<Rightarrow> state \<Rightarrow> (error + ref) \<times> state" where
  "new_SuperDog superP name =
     bind (ok (alloc \<lparr>props = Map.empty, proto = Some superP, frozen = False\<rparr>)) (\<lambda>this.
     bind (Dog_init this name) (\<lambda>_ s. (Inr this, s)))"

text \<open>The object literal \<^verbatim>\<open>{ bark() {...} }\<close> and \<^verbatim>\<open>Object.create(p)\<close>.\<close>

definition literal_dog :: "state \<Rightarrow> ref \<times> state" where
  "literal_dog =
     alloc \<lparr>props = [''bark'' \<mapsto> Fn dog_bark], proto = Some Object_prototype, frozen = False\<rparr>"

definition Object_create :: "ref \<Rightarrow> state \<Rightarrow> ref \<times> state" where
  "Object_create p = alloc \<lparr>props = Map.empty, proto = Some p, frozen = False\<rparr>"

text \<open>\<^verbatim>\<open>C.prototype.k = f\<close> at the top level of the script.\<close>

definition add_method :: "ref \<Rightarrow> string \<Rightarrow> fn \<Rightarrow> state \<Rightarrow> state" where
  "add_method p k f = assign_sloppy p k (Fn f)"

text \<open>
  The script, in four parts.  Lines 15 to 72: the classes Dog and Dog1 and six
  dogs; line 35 prints \<^verbatim>\<open>Dog.prototype\<close> and line 36 prints what
  \<^verbatim>\<open>dog1.__proto__\<close> reads.
\<close>

record dogs =
  DogP :: ref
  dog1 :: ref
  dog2 :: ref
  dog3 :: ref
  Dog1P :: ref
  dog4 :: ref
  dog5 :: ref
  dog6 :: ref

definition script_dogs :: "state \<Rightarrow> (error + dogs) \<times> state" where
  "script_dogs =
     bind (ok class_Dog) (\<lambda>dp.
     bind (new_Dog dp (Str ''Daisy'')) (\<lambda>d1.
     bind (new_Dog dp (Str ''Max'')) (\<lambda>d2.
     bind (new_Dog dp (Str ''Spot'')) (\<lambda>d3.
     bind (stmt (console_log [Object dp])) (\<lambda>_.
     bind (stmt (\<lambda>s. console_log [proto_part (heap s) d1] s)) (\<lambda>_.
     bind (ok class_Dog1) (\<lambda>dp1.
     bind (new_Dog dp (Str ''Daisy'')) (\<lambda>d4.
     bind (new_Dog dp (Str ''Max'')) (\<lambda>d5.
     bind (new_Dog dp (Str ''Spot'')) (\<lambda>d6 s.
       (Inr \<lparr>DogP = dp, dog1 = d1, dog2 = d2, dog3 = d3, Dog1P = dp1,
             dog4 = d4, dog5 = d5, dog6 = d6\<rparr>, s)))))))))))"

text \<open>Lines 74 to 76: \<^verbatim>\<open>Dog.prototype.play = ...; dog4.play();\<close>\<close>

definition script_play :: "dogs \<Rightarrow> state \<Rightarrow> (error + jsval) \<times> state" where
  "script_play d =
     bind (stmt (add_method (DogP d) ''play'' play_arrow)) (\<lambda>_.
     invoke (dog4 d) ''play'')"

text \<open>Lines 91 to 103: SuperDog, \<^verbatim>\<open>dog7.bark(); dog7.fly();\<close>  The result is
  \<^verbatim>\<open>dog7\<close> with what the call of \<^verbatim>\<open>bark\<close> returned.\<close>

definition script_dog7 :: "dogs \<Rightarrow> state \<Rightarrow> (error + ref) \<times> state" where
  "script_dog7 d =
     bind (ok (class_SuperDog (DogP d))) (\<lambda>sp.
     new_SuperDog sp (Str ''Daisy''))"

definition script_superdog :: "dogs \<Rightarrow> state \<Rightarrow> (error + ref \<times> jsval) \<times> state" where
  "script_superdog d =
     bind (script_dog7 d) (\<lambda>d7.
     bind (invoke d7 ''bark'') (\<lambda>woof.
     bind (invoke d7 ''fly'') (\<lambda>_ s. (Inr (d7, woof), s))))"

text \<open>Lines 116 to 131: \<^verbatim>\<open>pet1 = Object.create(dog); pet1.bark();\<close>\<close>

definition script_create :: "state \<Rightarrow> (error + ref) \<times> state" where
  "script_create =
     bind (ok literal_dog) (\<lambda>dg.
     bind (ok (Object_create dg)) (\<lambda>pet1.
     bind (invoke pet1 ''bark'') (\<lambda>_ s. (Inr pet1, s))))"

definition prototype_script :: "state \<Rightarrow> (error + unit) \<times> state" where
  "prototype_script =
     bind script_dogs (\<lambda>d.
     bind (script_play d) (\<lambda>_.
     bind (script_superdog d) (\<lambda>_.
     bind script_create (\<lambda>_ s. (Inr (), s)))))"

text \<open>The states of the script after line 72, and after line 101.\<close>

definition dogs_state :: state where
  "dogs_state = snd (script_dogs init_state)"

definition dog7_state :: state where
  "dog7_state =
     snd (bind script_dogs (\<lambda>d. bind (script_play d) (\<lambda>_. script_dog7 d)) init_state)"

section \<open>The singleton script\<close>

definition class_Counter :: "state \<Rightarrow> ref \<times> state" where
  "class_Counter =
     alloc \<lparr>props = [''constructor'' \<mapsto> Fn Counter_constructor,
                     ''getCounte'' \<mapsto> Fn Counter_getCounte,
                     ''increment'' \<mapsto> Fn Counter_increment,
                     ''decrement'' \<mapsto> Fn Counter_decrement],
            proto = Some Object_prototype, frozen = False\<rparr>"

text \<open>
  \<^verbatim>\<open>new Counter()\<close>: the fresh object exists before the constructor body runs;
  the body throws when \<^verbatim>\<open>instance\<close> is set, and records \<^verbatim>\<open>this\<close> otherwise.
\<close>

definition new_Counter :: "ref \<Rightarrow> state \<Rightarrow> (error + ref) \<times> state" where
  "new_Counter counterP =
     bind (ok (alloc \<lparr>props = Map.empty, proto = Some counterP, frozen = False\<rparr>)) (\<lambda>this s.
       if instance_var s \<noteq> None then (Inl OneInstance, s)
       else (Inr this, s\<lparr>instance_var := Some this\<rparr>))"

definition literal_newCounter :: "state \<Rightarrow> ref \<times> state" where
  "literal_newCounter =
     alloc \<lparr>props = [''increment'' \<mapsto> Fn newCounter_increment,
                     ''descrement'' \<mapsto> Fn newCounter_descrement],
            proto = Some Object_prototype, frozen = False\<rparr>"

record singletons =
  CounterP :: ref
  singletonCounter :: ref
  newCounter :: ref

text \<open>
  The script: the class, \<^verbatim>\<open>singletonCounter = Object.freeze(new Counter())\<close>, the
  attempt to replace \<^verbatim>\<open>decrement\<close>, the call \<^verbatim>\<open>singletonCounter.decrement()\<close>, and
  the frozen object literal \<^verbatim>\<open>newCounter\<close>.  The file has no strict directive and
  no import or export, so its top level is sloppy code.
\<close>

definition singleton_handle :: "state \<Rightarrow> (error + ref \<times> ref) \<times> state" where
  "singleton_handle =
     bind (ok class_Counter) (\<lambda>cp.
     bind (new_Counter cp) (\<lambda>sc.
     bind (stmt (freeze sc)) (\<lambda>_ s. (Inr (cp, sc), s))))"

definition singleton_script :: "state \<Rightarrow> (error + singletons) \<times> state" where
  "singleton_script =
     bind singleton_handle (\<lambda>(cp, sc).
     bind (stmt (assign_sloppy sc ''decrement'' (Fn decrement_arrow))) (\<lambda>_.
     bind (invoke sc ''decrement'') (\<lambda>_.
     bind (stmt (\<lambda>s. s\<lparr>count_var := 0\<rparr>)) (\<lambda>_.
     bind (ok literal_newCounter) (\<lambda>nc.
     bind (stmt (freeze nc)) (\<lambda>_ s.
       (Inr \<lparr>CounterP = cp, singletonCounter = sc, newCounter = nc\<rparr>, s)))))))"

text \<open>
  What code using the module can do, one action at a time: construct, call a
  method, freeze, assign a property.  An action that throws leaves the state
  it reached; the actions after it are those of code that caught the error.
\<close>

datatype action =
    Construct
  | Call ref string
  | Freeze ref
  | Assign ref string jsval

fun step :: "ref \<Rightarrow> action \<Rightarrow> state \<Rightarrow> state" where
  "step cp Construct s = snd (new_Counter cp s)"
| "step cp (Call r k) s = snd (invoke r k s)"
| "step cp (Freeze r) s = freeze r s"
| "step cp (Assign r k v) s = assign_sloppy r k v s"

fun run :: "ref \<Rightarrow> action list \<Rightarrow> state \<Rightarrow> state" where
  "run cp [] s = s"
| "run cp (a # as) s = run cp as (step cp a s)"

text \<open>The state after \<^verbatim>\<open>new Counter()\<close> (the class table is object 1, the new
  object 2), the state in which that object is the frozen handle, and the
  state reached from there by \<open>2 ^ 53\<close> calls of
  \<^verbatim>\<open>singletonCounter.increment()\<close>.\<close>

definition constructed_state :: state where
  "constructed_state = snd (bind (ok class_Counter) new_Counter init_state)"

definition handle_state :: state where
  "handle_state = snd (singleton_handle init_state)"

definition saturated_state :: state where
  "saturated_state = run 1 (replicate (2 ^ 53) (Call 2 ''increment'')) handle_state"

section \<open>The proxy script\<close>

text \<open>
  A proxy pairs a target object with a handler; the handler's \<^verbatim>\<open>get\<close> and
  \<^verbatim>\<open>set\<close> traps are optional.  The script has the empty handler and two
  handlers with both traps.
\<close>

datatype get_trap = personProxy1_get | personProxy2_get

datatype set_trap = personProxy1_set | personProxy2_set

record handler =
  get_h :: "get_trap option"
  set_h :: "set_trap option"

record proxy =
  target :: ref
  handler :: handler

text \<open>The \<^verbatim>\<open>get\<close> traps only print; no path returns a value.  The message of
  the second trap contains an apostrophe (character 0x27).\<close>

definition missing_message :: string where
  "missing_message = ''This property dose'' @ [CHR 0x27] @ ''t exist in objext''"

fun call_get_trap :: "get_trap \<Rightarrow> ref \<Rightarrow> string \<Rightarrow> state \<Rightarrow> jsval \<times> state" where
  "call_get_trap personProxy1_get obj prop s =
     (Undefined,
      console_log [Text ''The value of '', Text prop, Text '' is '',
                   Val (js_get (heap s) obj prop)] s)"
| "call_get_trap personProxy2_get obj prop s =
     (Undefined,
      if \<not> truthy (js_get (heap s) obj prop)
      then console_log [Text missing_message] s
      else console_log [Text ''The value of '', Text prop, Text '' is '',
                        Val (js_get (heap s) obj prop)] s)"

text \<open>
  \<^verbatim>\<open>value.length\<close>: reading a member of undefined or null throws; a string has
  its length, a function the number of its parameters, a number or a boolean
  no such member (undefined).
\<close>

fun arity :: "fn \<Rightarrow> int" where
  "arity Dog_constructor = 1"
| "arity Dog1_constructor = 1"
| "arity SuperDog_constructor = 1"
| "arity f = 0"

fun value_length :: "jsval \<Rightarrow> error + int option" where
  "value_length Undefined = Inl LengthOfNullish"
| "value_length Null = Inl LengthOfNullish"
| "value_length (Str s) = Inr (Some (int (length s)))"
| "value_length (Fn f) = Inr (Some (arity f))"
| "value_length (Bool b) = Inr None"
| "value_length (Num n) = Inr None"

text \<open>\<^verbatim>\<open>x < 2\<close> for such a length: undefined compares false.\<close>

definition less_than_2 :: "int option \<Rightarrow> bool" where
  "less_than_2 l = (case l of None \<Rightarrow> False | Some n \<Rightarrow> n < 2)"

fun call_set_trap ::
  "set_trap \<Rightarrow> ref \<Rightarrow> string \<Rightarrow> jsval \<Rightarrow> state \<Rightarrow> (error + jsval) \<times> state" where
  "call_set_trap personProxy1_set obj prop v s =
     (Inr Undefined,
      assign_sloppy obj prop v
        (console_log [Text ''Changed '', Text prop, Text '' from '',
                      Val (js_get (heap s) obj prop), Text '' to '', Val v] s))"
| "call_set_trap personProxy2_set obj prop v s =
     (if prop = ''age'' \<and> \<not> is_number v
      then (Inr Undefined,
            console_log [Text ''Sorry you can only pass numeric value for age''] s)
      else
        (case (if prop = ''name'' then map_sum id less_than_2 (value_length v)
               else Inr False) of
           Inl e \<Rightarrow> (Inl e, s)
         | Inr True \<Rightarrow> (Inr Undefined, console_log [Text ''Invalid name ''] s)
         | Inr False \<Rightarrow>
             (Inr Undefined,
              assign_sloppy obj prop v
                (console_log [Text ''Changed '', Text prop, Text '' from '',
                              Val (js_get (heap s) obj prop), Text '' to '', Val v,
                              Text ''.''] s))))"

text \<open>
  \<^verbatim>\<open>proxy[k]\<close>.  Without a \<^verbatim>\<open>get\<close> trap the read goes to the target.  With
  one, the trap's result is what the read yields; the runtime rejects a result
  that differs from the value a frozen target holds under that key.
\<close>

definition proxy_get :: "proxy \<Rightarrow> string \<Rightarrow> state \<Rightarrow> (error + jsval) \<times> state" where
  "proxy_get px k s =
     (case get_h (handler px) of
        None \<Rightarrow> (Inr (js_get (heap s) (target px) k), s)
      | Some t \<Rightarrow>
          (case call_get_trap t (target px) k s of
             (v, s') \<Rightarrow>
               if is_frozen (heap s') (target px) \<and>
                  (case own (heap s') (target px) k of None \<Rightarrow> False | Some w \<Rightarrow> w \<noteq> v)
               then (Inl ProxyInvariant, s')
               else (Inr v, s')))"

text \<open>
  The statement \<^verbatim>\<open>proxy[k] = v\<close> in sloppy code.  Without a \<^verbatim>\<open>set\<close> trap the
  assignment goes to the target.  With one, the trap decides; a falsy result
  of the trap is ignored, a truthy one is checked against a frozen target.
\<close>

definition proxy_set :: "proxy \<Rightarrow> string \<Rightarrow> jsval \<Rightarrow> state \<Rightarrow> (error + unit) \<times> state" where
  "proxy_set px k v s =
     (case set_h (handler px) of
        None \<Rightarrow> (Inr (), assign_sloppy (target px) k v s)
      | Some t \<Rightarrow>
          (case call_set_trap t (target px) k v s of
             (Inl e, s') \<Rightarrow> (Inl e, s')
           | (Inr res, s') \<Rightarrow>
               if truthy res \<and> is_frozen (heap s') (target px) \<and>
                  (case own (heap s') (target px) k of None \<Rightarrow> False | Some w \<Rightarrow> w \<noteq> v)
               then (Inl ProxyInvariant, s')
               else (Inr (), s')))"

definition literal_person :: "state \<Rightarrow> ref \<times> state" where
  "literal_person =
     alloc \<lparr>props = [''name'' \<mapsto> Str ''John Doe'', ''age'' \<mapsto> Num 42,
                     ''nationality'' \<mapsto> Str ''American''],
            proto = Some Object_prototype, frozen = False\<rparr>"

definition handler0 :: handler where
  "handler0 = \<lparr>get_h = None, set_h = None\<rparr>"

definition handler1 :: handler where
  "handler1 = \<lparr>get_h = Some personProxy1_get, set_h = Some personProxy1_set\<rparr>"

definition handler2 :: handler where
  "handler2 = \<lparr>get_h = Some personProxy2_get, set_h = Some personProxy2_set\<rparr>"

text \<open>The script: \<^verbatim>\<open>person\<close>, the three proxies over it, and the five accesses
  of lines 61, 62, 90, 91 and 92.  The result is \<^verbatim>\<open>person\<close>.\<close>

definition proxy_script :: "state \<Rightarrow> (error + ref) \<times> state" where
  "proxy_script =
     bind (ok literal_person) (\<lambda>person.
     bind (proxy_get \<lparr>target = person, handler = handler1\<rparr> ''name'') (\<lambda>_.
     bind (proxy_set \<lparr>target = person, handler = handler1\<rparr> ''age'' (Num 33)) (\<lambda>_.
     bind (proxy_get \<lparr>target = person, handler = handler2\<rparr> ''nonExistentProperty'') (\<lambda>_.
     bind (proxy_set \<lparr>target = person, handler = handler2\<rparr> ''age'' (Str ''23'')) (\<lambda>_.
     bind (proxy_set \<lparr>target = person, handler = handler2\<rparr> ''name'' (Str ''Thanos'')) (\<lambda>_ s.
       (Inr person, s)))))))"

text \<open>The state in which \<^verbatim>\<open>person\<close> exists (object 1), and the state after
  \<^verbatim>\<open>personProxy1.age = 0\<close> in it.\<close>

definition person_state :: state where
  "person_state = snd (literal_person init_state)"

definition zero_age_state :: state where
  "zero_age_state =
     snd (proxy_set \<lparr>target = 1, handler = handler1\<rparr> ''age'' (Num 0) person_state)"

section \<open>Properties of the object model\<close>

lemma chain_Some:
  "h r = Some ob \<Longrightarrow>
   chain h r = r # (case proto ob of None \<Rightarrow> [] | Some p \<Rightarrow> if p < r then chain h p else [])"
  by (subst chain.simps) simp

lemma chain_None: "h r = None \<Longrightarrow> chain h r = []"
  by (subst chain.simps) simp

text \<open>The chain depends on the prototype links only.\<close>

lemma chain_same_links:
  "(\<And>x. map_option proto (h' x) = map_option proto (h x)) \<Longrightarrow> chain h' r = chain h r"
proof (induction h r rule: chain.induct)
  case (1 h r)
  show ?case
  proof (cases "h r")
    case None
    with "1.prems"[of r] have "h' r = None" by simp
    with None show ?thesis by (simp add: chain_None)
  next
    case (Some ob)
    with "1.prems"[of r] obtain ob' where ob': "h' r = Some ob'" "proto ob' = proto ob"
      by (cases "h' r") auto
    show ?thesis
    proof (cases "proto ob")
      case None
      with Some ob' show ?thesis by (simp add: chain_Some)
    next
      case (Some p)
      note P = this
      show ?thesis
      proof (cases "p < r")
        case True
        from "1.IH"[OF \<open>h r = Some ob\<close> P True] "1.prems"
        have "chain h' p = chain h p" by simp
        with \<open>h r = Some ob\<close> ob' P True show ?thesis by (simp add: chain_Some)
      next
        case False
        with \<open>h r = Some ob\<close> ob' P show ?thesis by (simp add: chain_Some)
      qed
    qed
  qed
qed

lemma js_set_links:
  "map_option proto (snd (js_set r k v h) x) = map_option proto (h x)"
  by (auto simp: js_set_def Let_def split: option.splits)

lemma chain_js_set: "chain (snd (js_set r k v h)) x = chain h x"
  by (rule chain_same_links) (rule js_set_links)

lemma proto_of_js_set: "proto_of (snd (js_set r k v h)) x = proto_of h x"
  by (auto simp: js_set_def proto_of_def Let_def split: option.splits)

lemma is_frozen_js_set: "is_frozen (snd (js_set r k v h)) x = is_frozen h x"
  by (auto simp: js_set_def is_frozen_def Let_def split: option.splits)

lemma own_js_set_other:
  "x \<noteq> r \<or> j \<noteq> k \<Longrightarrow> own (snd (js_set r k v h)) x j = own h x j"
  by (auto simp: js_set_def own_def Let_def split: option.splits)

lemma own_js_set_same:
  "fst (js_set r k v h) \<Longrightarrow> own (snd (js_set r k v h)) r k = Some v"
  by (auto simp: js_set_def own_def Let_def split: option.splits if_splits)

lemma js_set_refused: "\<not> fst (js_set r k v h) \<Longrightarrow> snd (js_set r k v h) = h"
  by (auto simp: js_set_def Let_def split: option.splits if_splits)

lemma js_set_frozen: "is_frozen h r \<Longrightarrow> js_set r k v h = (False, h)"
  by (auto simp: js_set_def is_frozen_def Let_def split: option.splits)

text \<open>An unfrozen object that holds the key itself accepts the assignment.\<close>

lemma js_set_own_unfrozen:
  "own h r k = Some w \<Longrightarrow> \<not> is_frozen h r \<Longrightarrow> fst (js_set r k v h)"
  by (auto simp: js_set_def own_def is_frozen_def chain_Some Let_def split: option.splits)

lemma js_get_own: "own h r k = Some v \<Longrightarrow> js_get h r k = v"
  by (auto simp: js_get_def own_def chain_Some split: option.splits)

lemma js_get_inherit:
  "h r = Some ob \<Longrightarrow> props ob k = None \<Longrightarrow> proto ob = Some p \<Longrightarrow> p < r \<Longrightarrow>
   js_get h r k = js_get h p k"
  by (simp add: js_get_def own_def chain_Some)

lemma js_get_proto:
  "proto_of h r = Some p \<Longrightarrow> p < r \<Longrightarrow> own h r k = None \<Longrightarrow> js_get h r k = js_get h p k"
  by (auto simp: proto_of_def own_def split: option.splits intro: js_get_inherit)

lemma lookup_in_None: "lookup_in h rs k = None \<longleftrightarrow> (\<forall>x \<in> set rs. own h x k = None)"
  by (induction rs) (auto split: option.splits)

lemma lookup_in_first:
  "(\<forall>x \<in> set rs1. own h x k = None) \<Longrightarrow> own h x k = Some v \<Longrightarrow>
   lookup_in h (rs1 @ x # rs2) k = Some (x, v)"
  by (induction rs1) auto

lemma js_get_missing:
  "(\<forall>x \<in> set (chain h r). own h x k = None) \<Longrightarrow> js_get h r k = Undefined"
  using lookup_in_None[of h "chain h r" k] by (simp add: js_get_def)

lemma js_get_first:
  "chain h r = rs1 @ x # rs2 \<Longrightarrow> (\<forall>y \<in> set rs1. own h y k = None) \<Longrightarrow> own h x k = Some v \<Longrightarrow>
   js_get h r k = v"
  by (simp add: js_get_def lookup_in_first)

text \<open>The chain only descends to older objects, so an object allocated later
  does not change what an older object reads.\<close>

lemma chain_le: "x \<in> set (chain h r) \<Longrightarrow> x \<le> r"
proof (induction h r rule: chain.induct)
  case (1 h r)
  show ?case
  proof (cases "h r")
    case None
    with "1.prems" show ?thesis by (simp add: chain_None)
  next
    case (Some ob)
    show ?thesis
    proof (cases "proto ob")
      case None
      with Some "1.prems" show ?thesis by (simp add: chain_Some)
    next
      case P: (Some p)
      show ?thesis
      proof (cases "p < r")
        case True
        from "1.prems" Some P True have "x = r \<or> x \<in> set (chain h p)"
          by (simp add: chain_Some)
        then show ?thesis
        proof
          assume "x = r"
          then show ?thesis by simp
        next
          assume "x \<in> set (chain h p)"
          with "1.IH"[OF Some P True] True show ?thesis by simp
        qed
      next
        case False
        with Some P "1.prems" show ?thesis by (simp add: chain_Some)
      qed
    qed
  qed
qed

lemma chain_agree: "(\<And>x. x \<le> r \<Longrightarrow> h' x = h x) \<Longrightarrow> chain h' r = chain h r"
proof (induction h r rule: chain.induct)
  case (1 h r)
  have r: "h' r = h r" by (rule "1.prems") simp
  show ?case
  proof (cases "h r")
    case None
    with r show ?thesis by (simp add: chain_None)
  next
    case (Some ob)
    show ?thesis
    proof (cases "proto ob")
      case None
      with Some r show ?thesis by (simp add: chain_Some)
    next
      case P: (Some p)
      show ?thesis
      proof (cases "p < r")
        case True
        have "chain h' p = chain h p"
        proof (rule "1.IH"[OF Some P True])
          fix x assume "x \<le> p"
          with True show "h' x = h x" by (intro "1.prems") simp
        qed
        with Some P True r show ?thesis by (simp add: chain_Some)
      next
        case False
        with Some P r show ?thesis by (simp add: chain_Some)
      qed
    qed
  qed
qed

lemma lookup_in_agree:
  "\<forall>x \<in> set rs. own h' x k = own h x k \<Longrightarrow> lookup_in h' rs k = lookup_in h rs k"
  by (induction rs) (auto split: option.splits)

lemma js_get_agree:
  assumes "\<And>x. x \<le> r \<Longrightarrow> h' x = h x"
  shows "js_get h' r k = js_get h r k"
proof -
  have c: "chain h' r = chain h r"
    using assms by (rule chain_agree)
  have "own h' x k = own h x k" if "x \<in> set (chain h r)" for x
    using chain_le[OF that] assms[of x] by (simp add: own_def)
  then have "lookup_in h' (chain h r) k = lookup_in h (chain h r) k"
    by (intro lookup_in_agree) simp
  with c show ?thesis by (simp add: js_get_def)
qed

lemma js_get_upd_above: "r < n \<Longrightarrow> js_get (h(n \<mapsto> ob)) r k = js_get h r k"
  by (rule js_get_agree) simp

text \<open>No function body of the repository reads its receiver.\<close>

lemma call_fn_this: "call_fn f a s = call_fn f b s"
  by (cases f) simp_all

lemma call_fn_not_NotAFunction: "fst (call_fn f a s) \<noteq> Inl NotAFunction"
  by (cases f) (simp_all add: Let_def)

lemma invoke_not_fn: "\<not> is_fn (js_get (heap s) r k) \<Longrightarrow> invoke r k s = (Inl NotAFunction, s)"
  by (cases "js_get (heap s) r k") (simp_all add: invoke_def)

lemma invoke_fn: "js_get (heap s) r k = Fn f \<Longrightarrow> invoke r k s = call_fn f r s"
  by (simp add: invoke_def)

lemmas heap_defs = js_set_def js_get_def own_def proto_of_def is_frozen_def chain.simps
  alloc_def console_log_def assign_sloppy_def assign_strict_def freeze_def
  bind_def ok_def stmt_def init_state_def Object_prototype_def Let_def

lemmas query_defs = js_set_def js_get_def own_def proto_of_def is_frozen_def chain.simps
  console_log_def assign_sloppy_def freeze_def invoke_def Let_def

section \<open>The prototype script: its states\<close>

lemmas prototype_defs = script_dogs_def script_play_def script_dog7_def class_Dog_def
  class_Dog1_def class_SuperDog_def new_Dog_def new_SuperDog_def Dog_init_def add_method_def
  invoke_def proto_part_def

lemma script_dogs_init:
  "script_dogs init_state =
    (Inr \<lparr>DogP = 1, dog1 = 2, dog2 = 3, dog3 = 4, Dog1P = 5, dog4 = 6, dog5 = 7, dog6 = 8\<rparr>,
     \<lparr>heap = [0 \<mapsto> \<lparr>props = Map.empty, proto = None, frozen = False\<rparr>,
              1 \<mapsto> \<lparr>props = [''constructor'' \<mapsto> Fn Dog_constructor, ''bark'' \<mapsto> Fn Dog_bark],
                    proto = Some 0, frozen = False\<rparr>,
              2 \<mapsto> \<lparr>props = [''name'' \<mapsto> Str ''Daisy''], proto = Some 1, frozen = False\<rparr>,
              3 \<mapsto> \<lparr>props = [''name'' \<mapsto> Str ''Max''], proto = Some 1, frozen = False\<rparr>,
              4 \<mapsto> \<lparr>props = [''name'' \<mapsto> Str ''Spot''], proto = Some 1, frozen = False\<rparr>,
              5 \<mapsto> \<lparr>props = [''constructor'' \<mapsto> Fn Dog1_constructor, ''bark'' \<mapsto> Fn Dog1_bark],
                    proto = Some 0, frozen = False\<rparr>,
              6 \<mapsto> \<lparr>props = [''name'' \<mapsto> Str ''Daisy''], proto = Some 1, frozen = False\<rparr>,
              7 \<mapsto> \<lparr>props = [''name'' \<mapsto> Str ''Max''], proto = Some 1, frozen = False\<rparr>,
              8 \<mapsto> \<lparr>props = [''name'' \<mapsto> Str ''Spot''], proto = Some 1, frozen = False\<rparr>],
      next_ref = 9, console = [[Object 1], [Object 1]], instance_var = None, counter = 0,
      count_var = 0\<rparr>)"
  by (simp add: prototype_defs heap_defs eval_nat_numeral)

lemma dogs_state_eq:
  "dogs_state =
     \<lparr>heap = [0 \<mapsto> \<lparr>props = Map.empty, proto = None, frozen = False\<rparr>,
              1 \<mapsto> \<lparr>props = [''constructor'' \<mapsto> Fn Dog_constructor, ''bark'' \<mapsto> Fn Dog_bark],
                    proto = Some 0, frozen = False\<rparr>,
              2 \<mapsto> \<lparr>props = [''name'' \<mapsto> Str ''Daisy''], proto = Some 1, frozen = False\<rparr>,
              3 \<mapsto> \<lparr>props = [''name'' \<mapsto> Str ''Max''], proto = Some 1, frozen = False\<rparr>,
              4 \<mapsto> \<lparr>props = [''name'' \<mapsto> Str ''Spot''], proto = Some 1, frozen = False\<rparr>,
              5 \<mapsto> \<lparr>props = [''constructor'' \<mapsto> Fn Dog1_constructor, ''bark'' \<mapsto> Fn Dog1_bark],
                    proto = Some 0, frozen = False\<rparr>,
              6 \<mapsto> \<lparr>props = [''name'' \<mapsto> Str ''Daisy''], proto = Some 1, frozen = False\<rparr>,
              7 \<mapsto> \<lparr>props = [''name'' \<mapsto> Str ''Max''], proto = Some 1, frozen = False\<rparr>,
              8 \<mapsto> \<lparr>props = [''name'' \<mapsto> Str ''Spot''], proto = Some 1, frozen = False\<rparr>],
      next_ref = 9, console = [[Object 1], [Object 1]], instance_var = None, counter = 0,
      count_var = 0\<rparr>"
  by (simp add: dogs_state_def script_dogs_init)

text \<open>After line 101, \<^verbatim>\<open>Dog.prototype\<close> (1) also holds \<^verbatim>\<open>play\<close>;
  \<^verbatim>\<open>SuperDog.prototype\<close> is object 9 and \<^verbatim>\<open>dog7\<close> object 10.\<close>

lemma dog7_state_facts:
  "proto_of (heap dog7_state) 10 = Some 9"
  "proto_of (heap dog7_state) 9 = Some 1"
  "own (heap dog7_state) 10 k = (if k = ''name'' then Some (Str ''Daisy'') else None)"
  "own (heap dog7_state) 9 ''bark'' = None"
  "own (heap dog7_state) 1 ''bark'' = Some (Fn Dog_bark)"
  "own (heap dog7_state) 1 ''play'' = Some (Fn play_arrow)"
  by (simp_all add: dog7_state_def script_dogs_init prototype_defs heap_defs eval_nat_numeral)

section \<open>The prototype script: sharing and delegation\<close>

text \<open>
  C1 (prototype sharing), as amended.  Let \<open>a\<close> and \<open>b\<close> be instances created
  from the same behaviour table \<open>p\<close>.  When a method \<open>f\<close> is added to the table
  under a name \<open>k\<close> that neither instance holds among its own data, the
  assignment to the table being accepted (the table is not frozen, and no
  frozen table further up the chain holds \<open>k\<close>), the method is at once callable
  on both instances, and the two calls behave identically: each runs \<open>f\<close>.
  The name is a data key: \<^verbatim>\<open>__proto__\<close>, which names the prototype link and not
  a member of the table, is not covered.
\<close>

theorem prototype_sharing:
  assumes "proto_of (heap s) a = Some p" and "p < a" and "own (heap s) a k = None"
    and "proto_of (heap s) b = Some p" and "p < b" and "own (heap s) b k = None"
    and "fst (js_set p k (Fn f) (heap s))"
    and "data_key k"
  shows "invoke a k (add_method p k f s) = call_fn f a (add_method p k f s) \<and>
         invoke b k (add_method p k f s) = call_fn f b (add_method p k f s) \<and>
         invoke a k (add_method p k f s) = invoke b k (add_method p k f s)"
proof -
  let ?s = "add_method p k f s"
  have h: "heap ?s = snd (js_set p k (Fn f) (heap s))"
    by (simp add: add_method_def assign_sloppy_def)
  have table: "js_get (heap ?s) p k = Fn f"
    using assms(7) by (simp add: h js_get_own own_js_set_same)
  have "js_get (heap ?s) a k = js_get (heap ?s) p k"
    using assms(1-3) by (intro js_get_proto) (simp_all add: h proto_of_js_set own_js_set_other)
  with table have a: "invoke a k ?s = call_fn f a ?s" by (simp add: invoke_fn)
  have "js_get (heap ?s) b k = js_get (heap ?s) p k"
    using assms(4-6) by (intro js_get_proto) (simp_all add: h proto_of_js_set own_js_set_other)
  with table have b: "invoke b k ?s = call_fn f b ?s" by (simp add: invoke_fn)
  from a b call_fn_this[of f a ?s b] show ?thesis by simp
qed

text \<open>In the script: \<^verbatim>\<open>play\<close> is added to \<^verbatim>\<open>Dog.prototype\<close> (1) after \<^verbatim>\<open>dog4\<close> (6)
  and \<^verbatim>\<open>dog5\<close> (7) exist, and both can play.\<close>

theorem prototype_sharing_witness:
  "proto_of (heap dogs_state) 6 = Some 1 \<and> own (heap dogs_state) 6 ''play'' = None \<and>
   proto_of (heap dogs_state) 7 = Some 1 \<and> own (heap dogs_state) 7 ''play'' = None \<and>
   fst (js_set 1 ''play'' (Fn play_arrow) (heap dogs_state)) \<and> data_key ''play'' \<and>
   invoke 6 ''play'' (add_method 1 ''play'' play_arrow dogs_state) =
     (Inr Undefined,
      console_log [Text ''Playing now!''] (add_method 1 ''play'' play_arrow dogs_state)) \<and>
   invoke 7 ''play'' (add_method 1 ''play'' play_arrow dogs_state) =
     (Inr Undefined,
      console_log [Text ''Playing now!''] (add_method 1 ''play'' play_arrow dogs_state))"
proof -
  have a: "proto_of (heap dogs_state) 6 = Some 1" "own (heap dogs_state) 6 ''play'' = None"
    by (simp_all add: dogs_state_eq proto_of_def own_def)
  have b: "proto_of (heap dogs_state) 7 = Some 1" "own (heap dogs_state) 7 ''play'' = None"
    by (simp_all add: dogs_state_eq proto_of_def own_def)
  have c: "fst (js_set 1 ''play'' (Fn play_arrow) (heap dogs_state))"
    by (simp add: dogs_state_eq query_defs)
  have d: "data_key ''play''"
    by (simp add: data_key_def)
  from prototype_sharing [OF a(1) _ a(2) b(1) _ b(2) c d] a b c d show ?thesis by simp
qed

text \<open>
  The claim as first stated fails in two ways.  For a method added under a
  name that the instances hold as own data: \<^verbatim>\<open>Dog.prototype.name = f\<close> does
  store \<open>f\<close> in the table, but \<^verbatim>\<open>dog4.name\<close> is still the string 'Daisy', and
  \<^verbatim>\<open>dog4.name()\<close> throws.  And for a table that is frozen: after
  \<^verbatim>\<open>Object.freeze(Dog.prototype)\<close>, the statement \<^verbatim>\<open>Dog.prototype.play = f\<close>
  stores nothing, and \<^verbatim>\<open>dog4.play()\<close> throws.
\<close>

theorem prototype_sharing_counterexample:
  "own (heap (add_method 1 ''name'' play_arrow dogs_state)) 1 ''name'' = Some (Fn play_arrow) \<and>
   proto_of (heap (add_method 1 ''name'' play_arrow dogs_state)) 6 = Some 1 \<and>
   js_get (heap (add_method 1 ''name'' play_arrow dogs_state)) 6 ''name'' = Str ''Daisy'' \<and>
   fst (invoke 6 ''name'' (add_method 1 ''name'' play_arrow dogs_state)) = Inl NotAFunction \<and>
   own (heap (add_method 1 ''play'' play_arrow (freeze 1 dogs_state))) 1 ''play'' = None \<and>
   fst (invoke 6 ''play'' (add_method 1 ''play'' play_arrow (freeze 1 dogs_state))) =
     Inl NotAFunction"
  by (simp add: dogs_state_eq add_method_def query_defs)

text \<open>
  C5 (chain delegation).  Member lookup walks the delegation chain through
  several levels: when an instance \<open>i\<close> delegates to a child table \<open>c\<close>, the
  child table to a parent table \<open>p\<close>, and the member \<open>k\<close> is a function held by
  the parent only, then reading \<open>k\<close> on the instance yields the parent's function
  and calling it on the instance runs that function.  The script's SuperDog
  instance resolves \<^verbatim>\<open>bark\<close>, defined on Dog's table, in this way.
\<close>

theorem chain_delegation:
  assumes "proto_of (heap s) i = Some c" and "c < i" and "own (heap s) i k = None"
    and "proto_of (heap s) c = Some p" and "p < c" and "own (heap s) c k = None"
    and "own (heap s) p k = Some (Fn f)"
  shows "js_get (heap s) i k = Fn f \<and> invoke i k s = call_fn f i s"
proof -
  have "js_get (heap s) i k = js_get (heap s) c k"
    using assms(1-3) by (rule js_get_proto)
  also have "\<dots> = js_get (heap s) p k"
    using assms(4-6) by (rule js_get_proto)
  also have "\<dots> = Fn f"
    using assms(7) by (rule js_get_own)
  finally show ?thesis by (simp add: invoke_def)
qed

text \<open>In the script: \<^verbatim>\<open>dog7\<close> (10) delegates to \<^verbatim>\<open>SuperDog.prototype\<close> (9) and on
  to \<^verbatim>\<open>Dog.prototype\<close> (1), and \<^verbatim>\<open>dog7.bark()\<close> returns 'Woof!'.\<close>

theorem chain_delegation_witness:
  "proto_of (heap dog7_state) 10 = Some 9 \<and> own (heap dog7_state) 10 ''bark'' = None \<and>
   proto_of (heap dog7_state) 9 = Some 1 \<and> own (heap dog7_state) 9 ''bark'' = None \<and>
   own (heap dog7_state) 1 ''bark'' = Some (Fn Dog_bark) \<and>
   js_get (heap dog7_state) 10 ''bark'' = Fn Dog_bark \<and>
   invoke 10 ''bark'' dog7_state = (Inr (Str ''Woof!''), dog7_state)"
proof -
  have b: "own (heap dog7_state) 10 ''bark'' = None"
    by (simp add: dog7_state_facts(3))
  note f = dog7_state_facts
  from chain_delegation [OF f(1) _ b f(2) _ f(4) f(5)] b f show ?thesis by simp
qed

text \<open>
  C6 (property not found), as amended.  Invoking a member name on an instance
  throws the runtime's "not a function" error when the name is defined neither
  on the instance's own data nor on any table of its delegation chain; more
  precisely, it throws that error exactly when the earliest definition on the
  chain is missing or is not a function.  The earliest definition is the one
  that is read, and when it is a function, the call runs it.
\<close>

theorem invoke_property_not_found:
  "((\<forall>x \<in> set (chain (heap s) r). own (heap s) x k = None) \<longrightarrow>
      invoke r k s = (Inl NotAFunction, s)) \<and>
   (fst (invoke r k s) = Inl NotAFunction \<longleftrightarrow> \<not> is_fn (js_get (heap s) r k)) \<and>
   (chain (heap s) r = rs1 @ x # rs2 \<and> (\<forall>y \<in> set rs1. own (heap s) y k = None) \<and>
    own (heap s) x k = Some v \<longrightarrow>
      js_get (heap s) r k = v \<and> (\<forall>f. v = Fn f \<longrightarrow> invoke r k s = call_fn f r s))"
proof (intro conjI impI)
  assume "\<forall>x \<in> set (chain (heap s) r). own (heap s) x k = None"
  then have "js_get (heap s) r k = Undefined" by (rule js_get_missing)
  then show "invoke r k s = (Inl NotAFunction, s)" by (simp add: invoke_def)
next
  show "fst (invoke r k s) = Inl NotAFunction \<longleftrightarrow> \<not> is_fn (js_get (heap s) r k)"
  proof (cases "is_fn (js_get (heap s) r k)")
    case True
    then obtain f where "js_get (heap s) r k = Fn f" by (cases "js_get (heap s) r k") auto
    with True show ?thesis by (simp add: invoke_fn call_fn_not_NotAFunction)
  next
    case False
    then show ?thesis by (simp add: invoke_not_fn)
  qed
next
  assume "chain (heap s) r = rs1 @ x # rs2 \<and> (\<forall>y \<in> set rs1. own (heap s) y k = None) \<and>
    own (heap s) x k = Some v"
  then show "js_get (heap s) r k = v" by (auto intro: js_get_first)
  then show "\<forall>f. v = Fn f \<longrightarrow> invoke r k s = call_fn f r s" by (simp add: invoke_fn)
qed

text \<open>In the script, for \<^verbatim>\<open>dog1\<close> (2) before \<^verbatim>\<open>play\<close> is added: \<^verbatim>\<open>dog1.bark()\<close>
  runs the method of \<^verbatim>\<open>Dog.prototype\<close>, and \<^verbatim>\<open>dog1.play()\<close>, defined nowhere on
  the chain, throws.\<close>

theorem invoke_property_not_found_witness:
  "chain (heap dogs_state) 2 = [2, 1, 0] \<and> own (heap dogs_state) 2 ''bark'' = None \<and>
   own (heap dogs_state) 1 ''bark'' = Some (Fn Dog_bark) \<and>
   invoke 2 ''bark'' dogs_state = (Inr (Str ''Woof!''), dogs_state) \<and>
   invoke 2 ''play'' dogs_state = (Inl NotAFunction, dogs_state)"
proof -
  have c: "chain (heap dogs_state) 2 = [2] @ 1 # [0]"
    by (simp add: dogs_state_eq chain.simps)
  have a: "own (heap dogs_state) 2 ''bark'' = None"
    by (simp add: dogs_state_eq own_def)
  have b: "own (heap dogs_state) 1 ''bark'' = Some (Fn Dog_bark)"
    by (simp add: dogs_state_eq own_def)
  have m: "\<forall>x \<in> set (chain (heap dogs_state) 2). own (heap dogs_state) x ''play'' = None"
    unfolding c by (simp add: dogs_state_eq own_def)
  from invoke_property_not_found [of dogs_state 2 "''bark''" "[2]" 1 "[0]" "Fn Dog_bark"] a b c
  have "invoke 2 ''bark'' dogs_state = call_fn Dog_bark 2 dogs_state" by simp
  moreover from invoke_property_not_found [of dogs_state 2 "''play''" "[]" 0 "[]" Undefined] m
  have "invoke 2 ''play'' dogs_state = (Inl NotAFunction, dogs_state)" by blast
  ultimately show ?thesis using a b c by simp
qed

text \<open>
  The claim as first stated fails for a name that is defined but is not a
  function: \<^verbatim>\<open>name\<close> is defined on the own data of \<^verbatim>\<open>dog1\<close>, and \<^verbatim>\<open>dog1.name()\<close>
  throws all the same.
\<close>

theorem invoke_property_not_found_counterexample:
  "own (heap dogs_state) 2 ''name'' = Some (Str ''Daisy'') \<and>
   fst (invoke 2 ''name'' dogs_state) = Inl NotAFunction"
  by (simp add: dogs_state_eq query_defs)

section \<open>The singleton script\<close>

lemmas singleton_defs = singleton_handle_def class_Counter_def new_Counter_def

lemma singleton_handle_init:
  "singleton_handle init_state =
     (Inr (1, 2),
      \<lparr>heap = [0 \<mapsto> \<lparr>props = Map.empty, proto = None, frozen = False\<rparr>,
               1 \<mapsto> \<lparr>props = [''constructor'' \<mapsto> Fn Counter_constructor,
                               ''getCounte'' \<mapsto> Fn Counter_getCounte,
                               ''increment'' \<mapsto> Fn Counter_increment,
                               ''decrement'' \<mapsto> Fn Counter_decrement],
                     proto = Some 0, frozen = False\<rparr>,
               2 \<mapsto> \<lparr>props = Map.empty, proto = Some 1, frozen = True\<rparr>],
       next_ref = 3, console = [], instance_var = Some 2, counter = 0, count_var = 0\<rparr>)"
  by (simp add: singleton_defs heap_defs eval_nat_numeral)

lemma handle_state_eq:
  "handle_state =
      \<lparr>heap = [0 \<mapsto> \<lparr>props = Map.empty, proto = None, frozen = False\<rparr>,
               1 \<mapsto> \<lparr>props = [''constructor'' \<mapsto> Fn Counter_constructor,
                               ''getCounte'' \<mapsto> Fn Counter_getCounte,
                               ''increment'' \<mapsto> Fn Counter_increment,
                               ''decrement'' \<mapsto> Fn Counter_decrement],
                     proto = Some 0, frozen = False\<rparr>,
               2 \<mapsto> \<lparr>props = Map.empty, proto = Some 1, frozen = True\<rparr>],
       next_ref = 3, console = [], instance_var = Some 2, counter = 0, count_var = 0\<rparr>"
  by (simp add: handle_state_def singleton_handle_init)

lemma new_Counter_eq:
  "new_Counter cp s =
     (if instance_var s \<noteq> None
      then (Inl OneInstance,
            s\<lparr>heap := (heap s)(next_ref s \<mapsto> \<lparr>props = Map.empty, proto = Some cp, frozen = False\<rparr>),
              next_ref := next_ref s + 1\<rparr>)
      else (Inr (next_ref s),
            s\<lparr>heap := (heap s)(next_ref s \<mapsto> \<lparr>props = Map.empty, proto = Some cp, frozen = False\<rparr>),
              next_ref := next_ref s + 1, instance_var := Some (next_ref s)\<rparr>))"
  by (simp add: new_Counter_def bind_def ok_def alloc_def)

lemma instance_var_call_fn: "instance_var (snd (call_fn f r s)) = instance_var s"
  by (cases f) (simp_all add: console_log_def Let_def)

lemma instance_var_invoke: "instance_var (snd (invoke r k s)) = instance_var s"
  by (cases "js_get (heap s) r k") (simp_all add: invoke_def instance_var_call_fn)

lemma instance_var_freeze: "instance_var (freeze r s) = instance_var s"
  by (simp add: freeze_def split: option.splits)

lemma instance_var_step: "instance_var s \<noteq> None \<Longrightarrow> instance_var (step cp a s) \<noteq> None"
  by (cases a)
     (simp_all add: new_Counter_eq instance_var_invoke instance_var_freeze assign_sloppy_def)

lemma instance_var_run: "instance_var s \<noteq> None \<Longrightarrow> instance_var (run cp acts s) \<noteq> None"
proof (induction acts arbitrary: s)
  case Nil
  then show ?case by simp
next
  case (Cons a acts)
  from Cons.IH[OF instance_var_step[OF Cons.prems]] show ?case by simp
qed

text \<open>
  C2 (singleton uniqueness).  A construction fails with the error of the
  constructor exactly when an instance already exists.  The first construction
  (no instance yet) succeeds: it yields a fresh object linked to the class
  table, on which the members of the table resolve, and records it as the
  instance.  After it, every further direct construction fails, whatever the
  code using the module did in between.
\<close>

theorem singleton_uniqueness:
  "(fst (new_Counter cp s) = Inl OneInstance \<longleftrightarrow> instance_var s \<noteq> None) \<and>
   (instance_var s = None \<longrightarrow>
      fst (new_Counter cp s) = Inr (next_ref s) \<and>
      instance_var (snd (new_Counter cp s)) = Some (next_ref s) \<and>
      proto_of (heap (snd (new_Counter cp s))) (next_ref s) = Some cp \<and>
      (cp < next_ref s \<longrightarrow>
         js_get (heap (snd (new_Counter cp s))) (next_ref s) k = js_get (heap s) cp k) \<and>
      fst (new_Counter cp (run cp acts (snd (new_Counter cp s)))) = Inl OneInstance)"
proof (intro conjI impI)
  show "fst (new_Counter cp s) = Inl OneInstance \<longleftrightarrow> instance_var s \<noteq> None"
    by (simp add: new_Counter_eq)
next
  assume "instance_var s = None"
  then show "fst (new_Counter cp s) = Inr (next_ref s)"
    by (simp add: new_Counter_eq)
next
  assume "instance_var s = None"
  then show "instance_var (snd (new_Counter cp s)) = Some (next_ref s)"
    by (simp add: new_Counter_eq)
next
  assume "instance_var s = None"
  then show "proto_of (heap (snd (new_Counter cp s))) (next_ref s) = Some cp"
    by (simp add: new_Counter_eq proto_of_def)
next
  assume none: "instance_var s = None" and older: "cp < next_ref s"
  let ?h = "heap (snd (new_Counter cp s))"
  have h: "?h = (heap s)(next_ref s \<mapsto> \<lparr>props = Map.empty, proto = Some cp, frozen = False\<rparr>)"
    using none by (simp add: new_Counter_eq)
  have "js_get ?h (next_ref s) k = js_get ?h cp k"
    using older by (intro js_get_proto) (simp_all add: h proto_of_def own_def)
  also have "js_get ?h cp k = js_get (heap s) cp k"
    using older by (simp add: h js_get_upd_above)
  finally show "js_get ?h (next_ref s) k = js_get (heap s) cp k" .
next
  assume "instance_var s = None"
  then have "instance_var (snd (new_Counter cp s)) \<noteq> None"
    by (simp add: new_Counter_eq)
  then have "instance_var (run cp acts (snd (new_Counter cp s))) \<noteq> None"
    by (rule instance_var_run)
  then show "fst (new_Counter cp (run cp acts (snd (new_Counter cp s)))) = Inl OneInstance"
    by (simp add: new_Counter_eq)
qed

text \<open>In the script: before \<^verbatim>\<open>new Counter()\<close> there is no instance; the
  construction yields object 2; a later construction fails, here after the
  handle was frozen and used.\<close>

theorem singleton_uniqueness_witness:
  "instance_var (snd (class_Counter init_state)) = None \<and>
   fst (new_Counter 1 (snd (class_Counter init_state))) = Inr 2 \<and>
   fst (new_Counter 1
          (run 1 [Freeze 2, Call 2 ''increment'', Construct]
             (snd (new_Counter 1 (snd (class_Counter init_state)))))) = Inl OneInstance"
proof -
  have n: "instance_var (snd (class_Counter init_state)) = None"
    by (simp add: class_Counter_def alloc_def init_state_def)
  have r: "next_ref (snd (class_Counter init_state)) = 2"
    by (simp add: class_Counter_def alloc_def init_state_def)
  from singleton_uniqueness
         [of 1 "snd (class_Counter init_state)" "''increment''"
             "[Freeze 2, Call 2 ''increment'', Construct]"] n r
  show ?thesis by simp
qed

lemma freeze_is_frozen: "heap s r \<noteq> None \<Longrightarrow> is_frozen (heap (freeze r s)) r"
  by (auto simp: freeze_def is_frozen_def)

lemma assign_sloppy_frozen: "is_frozen (heap s) r \<Longrightarrow> assign_sloppy r k v s = s"
  by (simp add: assign_sloppy_def js_set_frozen)

lemma js_get_freeze: "js_get (heap (freeze r s)) x k = js_get (heap s) x k"
proof -
  have "chain (heap (freeze r s)) x = chain (heap s) x"
    by (rule chain_same_links) (simp add: freeze_def split: option.splits)
  moreover have "own (heap (freeze r s)) y k = own (heap s) y k" for y
    by (simp add: freeze_def own_def split: option.splits)
  then have "lookup_in (heap (freeze r s)) rs k = lookup_in (heap s) rs k" for rs
    by (intro lookup_in_agree) simp
  ultimately show ?thesis by (simp add: js_get_def)
qed

text \<open>
  C4 (singleton freeze).  Once the handle \<open>r\<close> is frozen, assigning a
  replacement \<open>v\<close> to one of its members \<open>k\<close> changes nothing: the state after
  the assignment is the state before it.  So every later call on the handle,
  and every later run of actions, behaves as it did before the attempt, and
  every member still reads as it did on the handle before it was frozen: the
  original method is the one that runs.
\<close>

theorem singleton_freeze:
  assumes "heap s r \<noteq> None"
  shows "assign_sloppy r k v (freeze r s) = freeze r s \<and>
         invoke r m (assign_sloppy r k v (freeze r s)) = invoke r m (freeze r s) \<and>
         run cp acts (assign_sloppy r k v (freeze r s)) = run cp acts (freeze r s) \<and>
         js_get (heap (assign_sloppy r k v (freeze r s))) r m = js_get (heap s) r m"
proof -
  have "is_frozen (heap (freeze r s)) r"
    using assms by (rule freeze_is_frozen)
  then have "assign_sloppy r k v (freeze r s) = freeze r s"
    by (rule assign_sloppy_frozen)
  then show ?thesis by (simp add: js_get_freeze)
qed

lemma constructed_state_eq:
  "constructed_state =
      \<lparr>heap = [0 \<mapsto> \<lparr>props = Map.empty, proto = None, frozen = False\<rparr>,
               1 \<mapsto> \<lparr>props = [''constructor'' \<mapsto> Fn Counter_constructor,
                               ''getCounte'' \<mapsto> Fn Counter_getCounte,
                               ''increment'' \<mapsto> Fn Counter_increment,
                               ''decrement'' \<mapsto> Fn Counter_decrement],
                     proto = Some 0, frozen = False\<rparr>,
               2 \<mapsto> \<lparr>props = Map.empty, proto = Some 1, frozen = False\<rparr>],
       next_ref = 3, console = [], instance_var = Some 2, counter = 0, count_var = 0\<rparr>"
  by (simp add: constructed_state_def singleton_defs heap_defs eval_nat_numeral)

lemma freeze_constructed_state: "freeze 2 constructed_state = handle_state"
  by (simp add: constructed_state_eq handle_state_eq freeze_def)

text \<open>In the script: after the attempt to replace \<^verbatim>\<open>decrement\<close> on the frozen
  \<^verbatim>\<open>singletonCounter\<close> (2), the call \<^verbatim>\<open>singletonCounter.decrement()\<close> still runs
  the method of the class: it returns -1, the counter is -1, and nothing has
  been printed.\<close>

theorem singleton_freeze_witness:
  "heap constructed_state 2 \<noteq> None \<and>
   assign_sloppy 2 ''decrement'' (Fn decrement_arrow) (freeze 2 constructed_state) =
     freeze 2 constructed_state \<and>
   js_get (heap (assign_sloppy 2 ''decrement'' (Fn decrement_arrow) (freeze 2 constructed_state)))
     2 ''decrement'' = Fn Counter_decrement \<and>
   invoke 2 ''decrement''
     (assign_sloppy 2 ''decrement'' (Fn decrement_arrow) (freeze 2 constructed_state)) =
     (Inr (Num (- 1)), handle_state\<lparr>counter := - 1\<rparr>) \<and>
   console (handle_state\<lparr>counter := - 1\<rparr>) = []"
proof -
  have a: "heap constructed_state 2 \<noteq> None"
    by (simp add: constructed_state_eq)
  have g: "js_get (heap constructed_state) 2 ''decrement'' = Fn Counter_decrement"
    by (simp add: constructed_state_eq query_defs)
  have i: "invoke 2 ''decrement'' handle_state = (Inr (Num (- 1)), handle_state\<lparr>counter := - 1\<rparr>)"
    by (simp add: handle_state_eq query_defs js_decr_def max_exact_def)
  have c: "console (handle_state\<lparr>counter := - 1\<rparr>) = []"
    by (simp add: handle_state_eq)
  have g': "js_get (heap handle_state) 2 ''decrement'' = Fn Counter_decrement"
    by (simp add: handle_state_eq query_defs)
  from singleton_freeze [OF a, of "''decrement''" "Fn decrement_arrow" "''decrement''" 1 "[]"]
    a g g' i c show ?thesis
    by (simp add: freeze_constructed_state)
qed

lemma step_increment:
  "js_get (heap s) r ''increment'' = Fn Counter_increment \<Longrightarrow>
   step cp (Call r ''increment'') s = s\<lparr>counter := js_incr (counter s)\<rparr>"
  by (simp add: invoke_def Let_def)

text \<open>The counter never leaves the range in which \<open>js_incr\<close> and \<open>js_decr\<close>
  are the arithmetic of the number type.\<close>

lemma counter_range_call_fn:
  "\<bar>counter s\<bar> \<le> max_exact \<Longrightarrow> \<bar>counter (snd (call_fn f r s))\<bar> \<le> max_exact"
  by (cases f) (auto simp: console_log_def js_incr_def js_decr_def max_exact_def Let_def)

lemma counter_range_step:
  "\<bar>counter s\<bar> \<le> max_exact \<Longrightarrow> \<bar>counter (step cp a s)\<bar> \<le> max_exact"
proof (cases a)
  case Construct
  assume "\<bar>counter s\<bar> \<le> max_exact"
  with Construct show ?thesis by (simp add: new_Counter_eq)
next
  case (Call r k)
  assume "\<bar>counter s\<bar> \<le> max_exact"
  with Call show ?thesis
    by (cases "js_get (heap s) r k") (simp_all add: invoke_def counter_range_call_fn)
next
  case (Freeze r)
  assume "\<bar>counter s\<bar> \<le> max_exact"
  with Freeze show ?thesis by (simp add: freeze_def split: option.splits)
next
  case (Assign r k v)
  assume "\<bar>counter s\<bar> \<le> max_exact"
  with Assign show ?thesis by (simp add: assign_sloppy_def)
qed

lemma counter_range_run:
  "\<bar>counter s\<bar> \<le> max_exact \<Longrightarrow> \<bar>counter (run cp acts s)\<bar> \<le> max_exact"
proof (induction acts arbitrary: s)
  case Nil
  then show ?case by simp
next
  case (Cons a acts)
  from Cons.IH[OF counter_range_step[OF Cons.prems]] show ?case by simp
qed

text \<open>Repeated increments climb one by one and stop at \<open>2 ^ 53\<close>.\<close>

lemma run_increments:
  "js_get (heap s) r ''increment'' = Fn Counter_increment \<Longrightarrow> counter s \<le> max_exact \<Longrightarrow>
   heap (run cp (replicate n (Call r ''increment'')) s) = heap s \<and>
   counter (run cp (replicate n (Call r ''increment'')) s) = min (counter s + int n) max_exact"
proof (induction n arbitrary: s)
  case 0
  then show ?case by simp
next
  case (Suc n)
  let ?s = "s\<lparr>counter := js_incr (counter s)\<rparr>"
  have st: "step cp (Call r ''increment'') s = ?s"
    using Suc.prems(1) by (rule step_increment)
  have "js_get (heap ?s) r ''increment'' = Fn Counter_increment"
    using Suc.prems(1) by simp
  moreover have "counter ?s \<le> max_exact"
    using Suc.prems(2) by (simp add: js_incr_def)
  ultimately have
    "heap (run cp (replicate n (Call r ''increment'')) ?s) = heap ?s \<and>
     counter (run cp (replicate n (Call r ''increment'')) ?s) = min (counter ?s + int n) max_exact"
    by (rule Suc.IH)
  moreover have "min (counter ?s + int n) max_exact = min (counter s + int (Suc n)) max_exact"
    using Suc.prems(2) by (auto simp: js_incr_def min_def)
  moreover have "run cp (replicate (Suc n) (Call r ''increment'')) s =
      run cp (replicate n (Call r ''increment'')) ?s"
    by (simp only: replicate_Suc run.simps st)
  ultimately show ?case by simp
qed

lemma saturated_state_facts:
  "heap saturated_state = heap handle_state"
  "counter saturated_state = max_exact"
proof -
  have g: "js_get (heap handle_state) 2 ''increment'' = Fn Counter_increment"
    by (simp add: handle_state_eq query_defs)
  have c: "counter handle_state \<le> max_exact"
    by (simp add: handle_state_eq max_exact_def)
  have z: "counter handle_state = 0"
    by (simp add: handle_state_eq)
  note r = run_increments [OF g c, of 1 "2 ^ 53"]
  from r show "heap saturated_state = heap handle_state"
    unfolding saturated_state_def by (rule conjunct1)
  from r have "counter saturated_state = min (counter handle_state + int (2 ^ 53)) max_exact"
    unfolding saturated_state_def by (rule conjunct2)
  then show "counter saturated_state = max_exact"
    unfolding z max_exact_def by simp
qed

text \<open>
  C8 (counter mutation), as amended.  \<^verbatim>\<open>increment()\<close> and \<^verbatim>\<open>decrement()\<close> never
  throw, return the counter's new value, change nothing but the counter, and
  work on the one counter of the module whatever the receiver and whatever
  handle the method was reached through.  While the counter is not at the end
  of the number type's exact integer range, \<^verbatim>\<open>increment()\<close> adds 1 and
  \<^verbatim>\<open>decrement()\<close> subtracts 1; at \<open>2 ^ 53\<close> an increment, and at \<open>- 2 ^ 53\<close> a
  decrement, leaves the counter as it is.
\<close>

theorem counter_mutation:
  "(- (2 ^ 53) \<le> counter s \<and> counter s < 2 ^ 53 \<longrightarrow>
      call_fn Counter_increment this s =
        (Inr (Num (counter s + 1)), s\<lparr>counter := counter s + 1\<rparr>)) \<and>
   (counter s = 2 ^ 53 \<longrightarrow> call_fn Counter_increment this s = (Inr (Num (counter s)), s)) \<and>
   (- (2 ^ 53) < counter s \<and> counter s \<le> 2 ^ 53 \<longrightarrow>
      call_fn Counter_decrement this s =
        (Inr (Num (counter s - 1)), s\<lparr>counter := counter s - 1\<rparr>)) \<and>
   (counter s = - (2 ^ 53) \<longrightarrow> call_fn Counter_decrement this s = (Inr (Num (counter s)), s)) \<and>
   (js_get (heap s) r ''increment'' = Fn Counter_increment \<longrightarrow>
      invoke r ''increment'' s = call_fn Counter_increment this s) \<and>
   (js_get (heap s) r ''decrement'' = Fn Counter_decrement \<longrightarrow>
      invoke r ''decrement'' s = call_fn Counter_decrement this s)"
  by (simp add: js_incr_def js_decr_def max_exact_def invoke_def Let_def)

text \<open>In the script's state with the frozen handle (counter 0): an increment
  gives 1, a decrement gives -1, through the handle (2) as well as through the
  class table (1).\<close>

theorem counter_mutation_witness:
  "- (2 ^ 53) < counter handle_state \<and> counter handle_state < 2 ^ 53 \<and>
   js_get (heap handle_state) 2 ''increment'' = Fn Counter_increment \<and>
   js_get (heap handle_state) 1 ''decrement'' = Fn Counter_decrement \<and>
   invoke 2 ''increment'' handle_state = (Inr (Num 1), handle_state\<lparr>counter := 1\<rparr>) \<and>
   invoke 1 ''decrement'' handle_state = (Inr (Num (- 1)), handle_state\<lparr>counter := - 1\<rparr>)"
proof -
  have z: "counter handle_state = 0"
    by (simp add: handle_state_eq)
  have i: "js_get (heap handle_state) 2 ''increment'' = Fn Counter_increment"
    by (simp add: handle_state_eq query_defs)
  have d: "js_get (heap handle_state) 1 ''decrement'' = Fn Counter_decrement"
    by (simp add: handle_state_eq query_defs)
  from counter_mutation [of handle_state 2 2] counter_mutation [of handle_state 1 1] z i d
  show ?thesis by simp
qed

text \<open>
  The claim as first stated fails at the end of the exact range.  After
  \<open>2 ^ 53\<close> increments the counter is \<open>2 ^ 53\<close>; one more
  \<^verbatim>\<open>singletonCounter.increment()\<close> returns \<open>2 ^ 53\<close> again and leaves the counter
  where it was, instead of adding 1.
\<close>

theorem counter_mutation_counterexample:
  "counter saturated_state = 2 ^ 53 \<and>
   fst (invoke 2 ''increment'' saturated_state) = Inr (Num (2 ^ 53)) \<and>
   counter (snd (invoke 2 ''increment'' saturated_state)) = 2 ^ 53"
proof -
  have g: "js_get (heap saturated_state) 2 ''increment'' = Fn Counter_increment"
    by (simp add: saturated_state_facts(1) handle_state_eq query_defs)
  have c: "counter saturated_state = 2 ^ 53"
    using saturated_state_facts(2) by (simp add: max_exact_def)
  have "invoke 2 ''increment'' saturated_state = (Inr (Num (2 ^ 53)), saturated_state)"
    using c by (simp add: invoke_def g js_incr_def max_exact_def)
  with c show ?thesis by simp
qed

section \<open>The proxy script\<close>

lemma person_state_eq:
  "person_state =
     \<lparr>heap = [0 \<mapsto> \<lparr>props = Map.empty, proto = None, frozen = False\<rparr>,
              1 \<mapsto> \<lparr>props = [''name'' \<mapsto> Str ''John Doe'', ''age'' \<mapsto> Num 42,
                              ''nationality'' \<mapsto> Str ''American''],
                    proto = Some 0, frozen = False\<rparr>],
      next_ref = 2, console = [], instance_var = None, counter = 0, count_var = 0\<rparr>"
  by (simp add: person_state_def literal_person_def heap_defs eval_nat_numeral)

lemmas proxy_defs = proxy_get_def proxy_set_def handler0_def handler1_def handler2_def

lemma person_state_facts:
  "own (heap person_state) 1 ''age'' = Some (Num 42)"
  "own (heap person_state) 1 ''name'' = Some (Str ''John Doe'')"
  "\<not> is_frozen (heap person_state) 1"
  by (simp_all add: person_state_eq own_def is_frozen_def)

lemma zero_age_state_facts:
  "own (heap zero_age_state) 1 ''age'' = Some (Num 0)"
  "\<not> is_frozen (heap zero_age_state) 1"
  by (simp_all add: zero_age_state_def person_state_eq proxy_defs query_defs)

lemma heap_call_get_trap: "heap (snd (call_get_trap g t k s)) = heap s"
  by (cases g) (simp_all add: console_log_def)

lemma fst_call_get_trap: "fst (call_get_trap g t k s) = Undefined"
  by (cases g) simp_all

text \<open>
  C3 (proxy write validation).  Under the policy of \<^verbatim>\<open>personProxy2\<close>, writing a
  value that is not a number to \<^verbatim>\<open>age\<close> (such as the string '23') returns
  normally, prints the diagnostic, and leaves the heap, hence \<^verbatim>\<open>target.age\<close>, as
  it was.  Writing a number \<open>n\<close> to \<^verbatim>\<open>age\<close> of a target that holds \<^verbatim>\<open>age\<close> and is
  not frozen (as \<^verbatim>\<open>person\<close> is) returns normally, and \<^verbatim>\<open>target.age\<close> then
  reads \<open>n\<close>.
\<close>

theorem proxy_write_validation:
  "(\<not> is_number v \<longrightarrow>
      proxy_set \<lparr>target = t, handler = handler2\<rparr> ''age'' v s =
        (Inr (), console_log [Text ''Sorry you can only pass numeric value for age''] s) \<and>
      js_get (heap (snd (proxy_set \<lparr>target = t, handler = handler2\<rparr> ''age'' v s))) t ''age'' =
        js_get (heap s) t ''age'') \<and>
   (own (heap s) t ''age'' = Some old \<and> \<not> is_frozen (heap s) t \<longrightarrow>
      fst (proxy_set \<lparr>target = t, handler = handler2\<rparr> ''age'' (Num n) s) = Inr () \<and>
      js_get (heap (snd (proxy_set \<lparr>target = t, handler = handler2\<rparr> ''age'' (Num n) s))) t ''age'' =
        Num n)"
proof (intro conjI impI)
  assume "\<not> is_number v"
  then show rejected: "proxy_set \<lparr>target = t, handler = handler2\<rparr> ''age'' v s =
      (Inr (), console_log [Text ''Sorry you can only pass numeric value for age''] s)"
    by (simp add: proxy_set_def handler2_def)
  show "js_get (heap (snd (proxy_set \<lparr>target = t, handler = handler2\<rparr> ''age'' v s))) t ''age'' =
      js_get (heap s) t ''age''"
    by (simp add: rejected console_log_def)
next
  assume a: "own (heap s) t ''age'' = Some old \<and> \<not> is_frozen (heap s) t"
  let ?line = "[Text ''Changed '', Text ''age'', Text '' from '',
                Val (js_get (heap s) t ''age''), Text '' to '', Val (Num n), Text ''.'']"
  have run: "proxy_set \<lparr>target = t, handler = handler2\<rparr> ''age'' (Num n) s =
      (Inr (), assign_sloppy t ''age'' (Num n) (console_log ?line s))"
    by (simp add: proxy_set_def handler2_def)
  then show "fst (proxy_set \<lparr>target = t, handler = handler2\<rparr> ''age'' (Num n) s) = Inr ()"
    by simp
  have h: "heap (assign_sloppy t ''age'' (Num n) (console_log ?line s)) =
      snd (js_set t ''age'' (Num n) (heap s))"
    by (simp add: assign_sloppy_def console_log_def)
  have "fst (js_set t ''age'' (Num n) (heap s))"
    using a by (auto intro: js_set_own_unfrozen)
  then have "own (snd (js_set t ''age'' (Num n) (heap s))) t ''age'' = Some (Num n)"
    by (rule own_js_set_same)
  then have "js_get (snd (js_set t ''age'' (Num n) (heap s))) t ''age'' = Num n"
    by (rule js_get_own)
  then show "js_get (heap (snd (proxy_set \<lparr>target = t, handler = handler2\<rparr> ''age'' (Num n) s)))
      t ''age'' = Num n"
    by (simp only: run snd_conv h)
qed

text \<open>In the script's state with \<^verbatim>\<open>person\<close> (1): \<^verbatim>\<open>personProxy2.age = '23'\<close>
  prints the diagnostic and the age stays 42; \<^verbatim>\<open>personProxy2.age = 23\<close> makes
  it 23.\<close>

theorem proxy_write_validation_witness:
  "\<not> is_number (Str ''23'') \<and>
   own (heap person_state) 1 ''age'' = Some (Num 42) \<and> \<not> is_frozen (heap person_state) 1 \<and>
   proxy_set \<lparr>target = 1, handler = handler2\<rparr> ''age'' (Str ''23'') person_state =
     (Inr (), console_log [Text ''Sorry you can only pass numeric value for age''] person_state) \<and>
   js_get (heap (snd (proxy_set \<lparr>target = 1, handler = handler2\<rparr> ''age'' (Str ''23'') person_state)))
     1 ''age'' = Num 42 \<and>
   fst (proxy_set \<lparr>target = 1, handler = handler2\<rparr> ''age'' (Num 23) person_state) = Inr () \<and>
   js_get (heap (snd (proxy_set \<lparr>target = 1, handler = handler2\<rparr> ''age'' (Num 23) person_state)))
     1 ''age'' = Num 23"
proof -
  note f = person_state_facts
  have g: "js_get (heap person_state) 1 ''age'' = Num 42"
    using f(1) by (rule js_get_own)
  from proxy_write_validation [of "Str ''23''" 1 person_state "Num 42" 23] f g
  show ?thesis by (simp add: console_log_def)
qed

text \<open>
  C7 (proxy passthrough).  Reading through a binding whose handler has no
  \<^verbatim>\<open>get\<close> trap returns what the target itself reads under that name, and
  changes nothing; for a property the target holds, that is the value held.
\<close>

theorem proxy_passthrough:
  "get_h (handler px) = None \<longrightarrow>
     proxy_get px k s = (Inr (js_get (heap s) (target px) k), s) \<and>
     (\<forall>v. own (heap s) (target px) k = Some v \<longrightarrow> proxy_get px k s = (Inr v, s))"
  by (simp add: proxy_get_def js_get_own)

text \<open>In the script: \<^verbatim>\<open>personProxy.age\<close> is 42 and \<^verbatim>\<open>personProxy.name\<close> is
  'John Doe'.\<close>

theorem proxy_passthrough_witness:
  "get_h (handler \<lparr>target = 1, handler = handler0\<rparr>) = None \<and>
   own (heap person_state) 1 ''age'' = Some (Num 42) \<and>
   proxy_get \<lparr>target = 1, handler = handler0\<rparr> ''age'' person_state =
     (Inr (Num 42), person_state) \<and>
   proxy_get \<lparr>target = 1, handler = handler0\<rparr> ''name'' person_state =
     (Inr (Str ''John Doe''), person_state)"
proof -
  have n: "get_h (handler \<lparr>target = 1, handler = handler0\<rparr>) = None"
    by (simp add: handler0_def)
  note f = person_state_facts
  note g = js_get_own [OF f(1)] js_get_own [OF f(2)]
  from proxy_passthrough [of "\<lparr>target = 1, handler = handler0\<rparr>" "''age''" person_state]
       proxy_passthrough [of "\<lparr>target = 1, handler = handler0\<rparr>" "''name''" person_state]
       n f g
  show ?thesis by simp
qed

text \<open>
  C9 (falsy values read as missing).  The \<^verbatim>\<open>get\<close> trap of \<^verbatim>\<open>personProxy2\<close>
  decides by the truthiness of \<^verbatim>\<open>target[prop]\<close>: it prints the "doesn't exist"
  message exactly when that value is falsy.  So a property that the target
  holds with a falsy value (0, the empty string, false are falsy) is reported
  as not existing, also when read through the proxy.
\<close>

theorem falsy_reads_as_missing:
  "(snd (call_get_trap personProxy2_get t k s) = console_log [Text missing_message] s \<longleftrightarrow>
      \<not> truthy (js_get (heap s) t k)) \<and>
   (own (heap s) t k = Some v \<and> \<not> truthy v \<longrightarrow>
      call_get_trap personProxy2_get t k s = (Undefined, console_log [Text missing_message] s) \<and>
      (\<not> is_frozen (heap s) t \<longrightarrow>
         proxy_get \<lparr>target = t, handler = handler2\<rparr> k s =
           (Inr Undefined, console_log [Text missing_message] s))) \<and>
   \<not> truthy (Num 0) \<and> \<not> truthy (Str []) \<and> \<not> truthy (Bool False)"
proof (intro conjI impI)
  show "snd (call_get_trap personProxy2_get t k s) = console_log [Text missing_message] s \<longleftrightarrow>
      \<not> truthy (js_get (heap s) t k)"
  proof (cases "truthy (js_get (heap s) t k)")
    case True
    have "console (console_log [Text ''The value of '', Text k, Text '' is '',
              Val (js_get (heap s) t k)] s) \<noteq> console (console_log [Text missing_message] s)"
      by (simp add: console_log_def)
    then have "console_log [Text ''The value of '', Text k, Text '' is '',
              Val (js_get (heap s) t k)] s \<noteq> console_log [Text missing_message] s"
      by metis
    with True show ?thesis by simp
  next
    case False
    then show ?thesis by simp
  qed
next
  assume a: "own (heap s) t k = Some v \<and> \<not> truthy v"
  then have g: "js_get (heap s) t k = v" by (simp add: js_get_own)
  with a show trap: "call_get_trap personProxy2_get t k s =
      (Undefined, console_log [Text missing_message] s)"
    by simp
  assume "\<not> is_frozen (heap s) t"
  with a g show "proxy_get \<lparr>target = t, handler = handler2\<rparr> k s =
      (Inr Undefined, console_log [Text missing_message] s)"
    by (simp add: proxy_get_def handler2_def console_log_def)
qed simp_all

text \<open>After \<^verbatim>\<open>personProxy1.age = 0\<close>, \<^verbatim>\<open>person\<close> holds \<^verbatim>\<open>age\<close> with the value 0,
  and \<^verbatim>\<open>personProxy2.age\<close> reports that the property does not exist.\<close>

theorem falsy_reads_as_missing_witness:
  "own (heap zero_age_state) 1 ''age'' = Some (Num 0) \<and> \<not> truthy (Num 0) \<and>
   \<not> is_frozen (heap zero_age_state) 1 \<and>
   proxy_get \<lparr>target = 1, handler = handler2\<rparr> ''age'' zero_age_state =
     (Inr Undefined, console_log [Text missing_message] zero_age_state)"
proof -
  note f = zero_age_state_facts
  from falsy_reads_as_missing [of 1 "''age''" zero_age_state "Num 0"] f
  show ?thesis by simp
qed

text \<open>
  C10 (interceptor reads yield undefined).  Both \<^verbatim>\<open>get\<close> traps return
  undefined for every target and every property name, existing or not.  So
  for every property name a read through \<^verbatim>\<open>personProxy1\<close> or \<^verbatim>\<open>personProxy2\<close>,
  whose target \<^verbatim>\<open>person\<close> is not frozen, yields undefined and not the value the
  target holds.
\<close>

theorem interceptor_reads_undefined:
  "fst (call_get_trap g t k s) = Undefined \<and>
   (\<not> is_frozen (heap s) t \<longrightarrow>
      fst (proxy_get \<lparr>target = t, handler = handler1\<rparr> k s) = Inr Undefined \<and>
      fst (proxy_get \<lparr>target = t, handler = handler2\<rparr> k s) = Inr Undefined)"
proof (intro conjI impI)
  show "fst (call_get_trap g t k s) = Undefined"
    by (rule fst_call_get_trap)
next
  assume "\<not> is_frozen (heap s) t"
  then show "fst (proxy_get \<lparr>target = t, handler = handler1\<rparr> k s) = Inr Undefined"
    by (simp add: proxy_get_def handler1_def console_log_def)
next
  assume "\<not> is_frozen (heap s) t"
  then show "fst (proxy_get \<lparr>target = t, handler = handler2\<rparr> k s) = Inr Undefined"
    by (simp add: proxy_get_def handler2_def console_log_def)
qed

text \<open>In the script: \<^verbatim>\<open>person\<close> holds the name 'John Doe', and both
  \<^verbatim>\<open>personProxy1.name\<close> and \<^verbatim>\<open>personProxy2.name\<close> are undefined.\<close>

theorem interceptor_reads_undefined_witness:
  "\<not> is_frozen (heap person_state) 1 \<and>
   own (heap person_state) 1 ''name'' = Some (Str ''John Doe'') \<and>
   fst (proxy_get \<lparr>target = 1, handler = handler1\<rparr> ''name'' person_state) = Inr Undefined \<and>
   fst (proxy_get \<lparr>target = 1, handler = handler2\<rparr> ''name'' person_state) = Inr Undefined"
proof -
  note f = person_state_facts
  from interceptor_reads_undefined [of personProxy1_get 1 "''name''" person_state] f
  show ?thesis by simp
qed

end
